theory Spec2Isabelle
  imports Complex_Main "HOL-Library.AList" "HOL-Library.Multiset"
begin

section \<open>JavaScript strings\<close>

text \<open>
  A JavaScript string is a sequence of UTF-16 code units. The model uses \<^typ>\<open>string\<close>
  and reads each \<^typ>\<open>char\<close> as one code unit in the range U+0000 to U+00FF, which
  covers every literal of the program (\<open>st\<close>, U+00FC, \<open>ck\<close> is the only one that
  is not ASCII). Code units from U+0100 on are outside the model.
\<close>

definition stueck :: string where
  "stueck = [CHR ''s'', CHR ''t'', CHR 0xFC, CHR ''c'', CHR ''k'']"

text \<open>
  \<open>String.prototype.toLowerCase\<close> on that range: the letters A to Z and the
  letters U+00C0 to U+00DE (without the multiplication sign U+00D7) move up by 32, every
  other code unit is kept.
\<close>

definition lowerChar :: "char \<Rightarrow> char" where
  "lowerChar c = (let n = (of_char c :: nat) in
     if (65 \<le> n \<and> n \<le> 90) \<or> (192 \<le> n \<and> n \<le> 222 \<and> n \<noteq> 215)
     then char_of (n + 32) else c)"

definition toLowerCase :: "string \<Rightarrow> string" where
  "toLowerCase s = map lowerChar s"

text \<open>
  \<open>String.prototype.trim\<close> removes white space and line terminators at both ends;
  below U+0100 these are TAB, LF, VT, FF, CR, SPACE and NBSP.
\<close>

definition isWhiteSpace :: "char \<Rightarrow> bool" where
  "isWhiteSpace c = ((of_char c :: nat) \<in> set [9, 10, 11, 12, 13, 32, 160])"

definition trim :: "string \<Rightarrow> string" where
  "trim s = rev (dropWhile isWhiteSpace (rev (dropWhile isWhiteSpace s)))"

text \<open>
  \<open>s || d\<close> for an optional string \<open>s\<close>: \<open>undefined\<close> and the empty string are
  falsy and give \<open>d\<close>.
\<close>

definition orDefault :: "string option \<Rightarrow> string \<Rightarrow> string" where
  "orDefault s d = (case s of None \<Rightarrow> d | Some v \<Rightarrow> if v = [] then d else v)"

section \<open>Data model\<close>

text \<open>
  \<open>interface Transaction\<close> and \<open>interface InventoryItem\<close>. A JavaScript number is
  modelled as a real number: rounding, infinities and NaN of IEEE doubles are not modelled.
  The optional \<open>unit\<close> is an option; the value stored for a key during aggregation has
  the static type \<open>string\<close> for its unit, but \<open>current.unit = tx.unit!\<close> stores
  \<open>undefined\<close> at run time when the transaction has no unit, so it is an option too.
\<close>

datatype txType = ADD | REMOVE

record transaction =
  tx_id :: string
  tx_timestamp :: nat
  tx_type :: txType
  tx_name :: string
  tx_quantity :: real
  tx_unit :: "string option"

record inventoryItem =
  item_name :: string
  item_quantity :: real
  item_unit :: "string option"

record current =
  cur_quantity :: real
  cur_unit :: "string option"

text \<open>
  \<open>new Map<string, {quantity, unit}>()\<close>: a JavaScript Map iterates in insertion order
  and \<open>set\<close> on a present key keeps its position, which is what
  \<^const>\<open>AList.update\<close> does on an association list.
\<close>

type_synonym inventoryMap = "(string \<times> current) list"

section \<open>Unit normalisation\<close>

text \<open>
  \<open>normalize(quantity, unit?)\<close>, the same text in every copy of the data layer.
  \<open>!unit\<close> holds for \<open>undefined\<close> and for the empty string.
\<close>

definition normalize_unit :: "real \<Rightarrow> string option \<Rightarrow> real \<times> string" where
  "normalize_unit quantity unit =
     (case unit of
        None \<Rightarrow> (quantity, stueck)
      | Some lbl \<Rightarrow>
          if lbl = [] then (quantity, stueck)
          else
            let u = trim (toLowerCase lbl) in
            if u \<in> set [''kg'', ''kilo'', ''kilogramm''] then (quantity * 1000, ''g'')
            else if u \<in> set [''g'', ''gramm'', ''gr''] then (quantity, ''g'')
            else if u \<in> set [''l'', ''liter''] then (quantity * 1000, ''ml'')
            else if u \<in> set [''ml'', ''milliliter''] then (quantity, ''ml'')
            else (quantity, u))"

section \<open>The file-backed ledger\<close>

text \<open>
  The synchronous data layer keeps the log in one JSON file. The world is what the
  functions can observe of it: whether the file exists and what \<open>JSON.parse\<close> makes of
  its text, whether the next read of the file system throws, and how the next write ends.
\<close>

datatype error = IOError | SyntaxError

datatype fileContent = Json "transaction list" | Unparsable

text \<open>
  \<open>fs.writeFileSync(path, text)\<close> opens the file with flag \<open>w\<close>, which empties
  it, and then writes the text; there is no temporary file and no rename. The write
  either completes, or throws at the open (the file is as before), or throws after the
  open: the file then holds no text or a proper prefix of the text, and neither parses.
\<close>

datatype writeOutcome = Completes | ThrowsAtOpen | ThrowsAfterOpen

record world =
  dbFile :: "fileContent option"
  readThrows :: bool
  nextWrite :: writeOutcome

definition existsSync :: "world \<Rightarrow> bool" where
  "existsSync w = (dbFile w \<noteq> None)"

definition readFileSync :: "world \<Rightarrow> error + fileContent" where
  "readFileSync w =
     (if readThrows w then Inl IOError
      else case dbFile w of None \<Rightarrow> Inl IOError | Some c \<Rightarrow> Inr c)"

definition JSON_parse :: "fileContent \<Rightarrow> error + transaction list" where
  "JSON_parse c = (case c of Json ts \<Rightarrow> Inr ts | Unparsable \<Rightarrow> Inl SyntaxError)"

definition writeFileSync :: "world \<Rightarrow> transaction list \<Rightarrow> world \<times> error option" where
  "writeFileSync w ts =
     (case nextWrite w of
        Completes \<Rightarrow> (w\<lparr>dbFile := Some (Json ts)\<rparr>, None)
      | ThrowsAtOpen \<Rightarrow> (w, Some IOError)
      | ThrowsAfterOpen \<Rightarrow> (w\<lparr>dbFile := Some Unparsable\<rparr>, Some IOError))"

text \<open>
  \<open>getTransactions\<close>: the whole body is inside \<open>try\<close>, and the \<open>catch\<close> logs
  and returns the empty array. \<open>Inl\<close> is an exception that reaches the caller.
\<close>

definition getTransactions :: "world \<Rightarrow> error + transaction list" where
  "getTransactions w =
     (if \<not> existsSync w then Inr []
      else case readFileSync w of
             Inl e \<Rightarrow> Inr []
           | Inr txt \<Rightarrow> (case JSON_parse txt of Inl e \<Rightarrow> Inr [] | Inr ts \<Rightarrow> Inr ts))"

text \<open>
  \<open>addTransaction(type, name, quantity, unit?)\<close>: read the whole log, push the
  normalised transaction, write the whole log back. \<open>newId\<close> and \<open>now\<close> stand for
  \<open>Date.now().toString() + Math.random()...\<close> and \<open>Date.now()\<close>. The write is not
  inside a \<open>try\<close>, so its exception reaches the caller. The result is the world after
  the call, as the write left it, and what the caller gets.
\<close>

definition addTransaction ::
  "world \<Rightarrow> string \<Rightarrow> nat \<Rightarrow> txType \<Rightarrow> string \<Rightarrow> real \<Rightarrow> string option
     \<Rightarrow> world \<times> (error + transaction)" where
  "addTransaction w newId now type name quantity unit =
     (case getTransactions w of
        Inl e \<Rightarrow> (w, Inl e)
      | Inr transactions \<Rightarrow>
          let normalized = normalize_unit quantity unit;
              newTransaction = \<lparr>tx_id = newId, tx_timestamp = now, tx_type = type,
                 tx_name = name, tx_quantity = fst normalized,
                 tx_unit = Some (snd normalized)\<rparr>
          in case writeFileSync w (transactions @ [newTransaction]) of
               (w', Some e) \<Rightarrow> (w', Inl e)
             | (w', None) \<Rightarrow> (w', Inr newTransaction))"

section \<open>The Postgres-backed read\<close>

text \<open>
  \<open>getTransactionsPG\<close>: the SELECT gives rows, or fails because the table does not
  exist (message \<open>does not exist\<close> or code \<open>42P01\<close>), or fails otherwise. In the
  first failure the handler awaits \<open>ensureTable()\<close>, whose own failure is not caught;
  \<open>ensureTableThrows\<close> says whether it fails. A row becomes a transaction with
  \<open>unit: row.unit || undefined\<close>.
\<close>

datatype queryResult = Rows "transaction list" | UndefinedTable | QueryError

definition fromRow :: "transaction \<Rightarrow> transaction" where
  "fromRow row =
     row\<lparr>tx_unit := (case tx_unit row of
                        None \<Rightarrow> None
                      | Some u \<Rightarrow> if u = [] then None else Some u)\<rparr>"

definition getTransactionsPG :: "queryResult \<Rightarrow> bool \<Rightarrow> error + transaction list" where
  "getTransactionsPG result ensureTableThrows =
     (case result of
        Rows rows \<Rightarrow> Inr (map fromRow rows)
      | UndefinedTable \<Rightarrow> if ensureTableThrows then Inl IOError else Inr []
      | QueryError \<Rightarrow> Inr [])"

section \<open>The blob-backed append\<close>

text \<open>
  \<open>addTransactionBlob\<close> is an async function with two awaits: it reads the whole log
  (\<open>getTransactionsBlob\<close>, the empty array when there is no blob yet), pushes the
  transaction onto that array, and then overwrites the blob with the array (\<open>put\<close>
  with \<open>addRandomSuffix: false\<close>). A call is suspended at each await, and other calls
  run meanwhile: a call is either about to read, or holds the array it is going to
  write, or is done. \<open>addTransactionLocal\<close> has the same two steps on the local file.
\<close>

type_synonym blob = "transaction list option"

datatype appendCall = Reading transaction | Writing "transaction list" | Finished

definition getTransactionsBlob :: "blob \<Rightarrow> transaction list" where
  "getTransactionsBlob b = (case b of None \<Rightarrow> [] | Some ts \<Rightarrow> ts)"

fun resume :: "blob \<Rightarrow> appendCall \<Rightarrow> blob \<times> appendCall" where
  "resume b (Reading tx) = (b, Writing (getTransactionsBlob b @ [tx]))"
| "resume b (Writing ts) = (Some ts, Finished)"
| "resume b Finished = (b, Finished)"

text \<open>
  A schedule names, step by step, the call that the event loop resumes next.
\<close>

fun run :: "nat list \<Rightarrow> blob \<times> appendCall list \<Rightarrow> blob \<times> appendCall list" where
  "run [] conf = conf"
| "run (i # sched) (b, calls) =
     (if i < length calls
      then run sched (fst (resume b (calls ! i)), calls[i := snd (resume b (calls ! i))])
      else run sched (b, calls))"

section \<open>Aggregation\<close>

text \<open>
  The body of \<open>for (const tx of transactions)\<close> in \<open>getInventory\<close>. The entry of
  the key is created on first sight with quantity 0 and unit \<open>tx.unit || 'stueck'\<close>;
  \<open>current\<close> is then that entry, and the branches update it in place. The inner test
  of the mismatching REMOVE has two empty branches in the source and is kept.
\<close>

definition initial :: "transaction \<Rightarrow> current" where
  "initial tx = \<lparr>cur_quantity = 0, cur_unit = Some (orDefault (tx_unit tx) stueck)\<rparr>"

definition currentOf :: "inventoryMap \<Rightarrow> transaction \<Rightarrow> current" where
  "currentOf inventoryMap tx =
     (case map_of inventoryMap (toLowerCase (tx_name tx)) of
        None \<Rightarrow> initial tx
      | Some c \<Rightarrow> c)"

definition updateCurrent :: "current \<Rightarrow> transaction \<Rightarrow> current" where
  "updateCurrent c tx =
     (case tx_type tx of
        ADD \<Rightarrow>
          if cur_quantity c = 0
          then \<lparr>cur_quantity = cur_quantity c + tx_quantity tx, cur_unit = tx_unit tx\<rparr>
          else if cur_unit c = tx_unit tx
          then c\<lparr>cur_quantity := cur_quantity c + tx_quantity tx\<rparr>
          else c\<lparr>cur_quantity := cur_quantity c + tx_quantity tx\<rparr>
      | REMOVE \<Rightarrow>
          if cur_unit c = tx_unit tx
          then c\<lparr>cur_quantity := cur_quantity c - tx_quantity tx\<rparr>
          else if tx_unit tx = Some stueck \<and> tx_quantity tx = 1 then c
          else c)"

definition applyTransaction :: "inventoryMap \<Rightarrow> transaction \<Rightarrow> inventoryMap" where
  "applyTransaction inventoryMap tx =
     AList.update (toLowerCase (tx_name tx))
       (updateCurrent (currentOf inventoryMap tx) tx) inventoryMap"

definition foldTransactions :: "transaction list \<Rightarrow> inventoryMap" where
  "foldTransactions transactions = foldl applyTransaction [] transactions"

text \<open>
  The second half of \<open>getInventory\<close>: every entry with a positive quantity becomes an
  item, named after the last transaction of its key.
\<close>

definition displayName :: "transaction list \<Rightarrow> string \<Rightarrow> string" where
  "displayName transactions key =
     (case find (\<lambda>t. toLowerCase (tx_name t) = key) (rev transactions) of
        Some lastTx \<Rightarrow> tx_name lastTx
      | None \<Rightarrow> key)"

definition toItem :: "transaction list \<Rightarrow> string \<times> current \<Rightarrow> inventoryItem" where
  "toItem transactions kv =
     \<lparr>item_name = displayName transactions (fst kv),
      item_quantity = cur_quantity (snd kv),
      item_unit = cur_unit (snd kv)\<rparr>"

text \<open>
  \<open>getInventory\<close> on the array that \<open>getTransactions()\<close> returned.
\<close>

definition getInventory :: "transaction list \<Rightarrow> inventoryItem list" where
  "getInventory transactions =
     map (toItem transactions)
       (filter (\<lambda>kv. 0 < cur_quantity (snd kv)) (foldTransactions transactions))"

section \<open>The client-side copy of the aggregation\<close>

text \<open>
  \<open>calculateInventory(transactions)\<close> of the page component, which aggregates the
  transactions kept in the browser. It creates the entry of a key in the same way, but an
  ADD on an empty balance stores \<open>tx.unit || 'stueck'\<close>, and every REMOVE subtracts,
  whatever its unit.
\<close>

definition calculateCurrent :: "current \<Rightarrow> transaction \<Rightarrow> current" where
  "calculateCurrent c tx =
     (case tx_type tx of
        ADD \<Rightarrow>
          if cur_quantity c = 0
          then \<lparr>cur_quantity = cur_quantity c + tx_quantity tx,
                cur_unit = Some (orDefault (tx_unit tx) stueck)\<rparr>
          else c\<lparr>cur_quantity := cur_quantity c + tx_quantity tx\<rparr>
      | REMOVE \<Rightarrow> c\<lparr>cur_quantity := cur_quantity c - tx_quantity tx\<rparr>)"

definition calculateStep :: "inventoryMap \<Rightarrow> transaction \<Rightarrow> inventoryMap" where
  "calculateStep inventoryMap tx =
     AList.update (toLowerCase (tx_name tx))
       (calculateCurrent (currentOf inventoryMap tx) tx) inventoryMap"

definition calculateFold :: "transaction list \<Rightarrow> inventoryMap" where
  "calculateFold transactions = foldl calculateStep [] transactions"

definition calculateInventory :: "transaction list \<Rightarrow> inventoryItem list" where
  "calculateInventory transactions =
     map (toItem transactions)
       (filter (\<lambda>kv. 0 < cur_quantity (snd kv)) (calculateFold transactions))"

text \<open>Shorthands for the transactions of the examples.\<close>

definition Add :: "real \<Rightarrow> string \<Rightarrow> string \<Rightarrow> transaction" where
  "Add q n u = \<lparr>tx_id = [], tx_timestamp = 0, tx_type = ADD, tx_name = n,
     tx_quantity = q, tx_unit = Some u\<rparr>"

definition Remove :: "real \<Rightarrow> string \<Rightarrow> string \<Rightarrow> transaction" where
  "Remove q n u = \<lparr>tx_id = [], tx_timestamp = 0, tx_type = REMOVE, tx_name = n,
     tx_quantity = q, tx_unit = Some u\<rparr>"

text \<open>
  The transactions of a key, and the effect of one transaction on a balance of its unit.
\<close>

definition ofKey :: "string \<Rightarrow> transaction list \<Rightarrow> transaction list" where
  "ofKey k txs = filter (\<lambda>t. toLowerCase (tx_name t) = k) txs"

definition signedQuantity :: "transaction \<Rightarrow> real" where
  "signedQuantity tx =
     (case tx_type tx of ADD \<Rightarrow> tx_quantity tx | REMOVE \<Rightarrow> - tx_quantity tx)"

text \<open>The items of a snapshot whose name folds to a given key.\<close>

definition itemsOfKey :: "string \<Rightarrow> inventoryItem list \<Rightarrow> inventoryItem list" where
  "itemsOfKey k items = filter (\<lambda>it. toLowerCase (item_name it) = k) items"

section \<open>Unit normalisation: results\<close>

lemma trim_Nil: "trim [] = []"
  by (simp add: trim_def)

lemma toLowerCase_Nil: "toLowerCase [] = []"
  by (simp add: toLowerCase_def)

lemma toLowerCase_kilogram: "toLowerCase ''kilogram'' = ''kilogram''"
  by code_simp

lemma trim_kilogram: "trim ''kilogram'' = ''kilogram''"
  by code_simp

lemma toLowerCase_KG: "toLowerCase '' KG '' = '' kg ''"
  by code_simp

lemma trim_kg: "trim '' kg '' = ''kg''"
  by code_simp

lemma stueck_neq_count: "stueck \<noteq> ''count''"
  by (simp add: stueck_def)

text \<open>
  C3 as stated: with no unit label, normalize returns the quantity and the unit
  \<open>count\<close>. The program returns its own default unit instead.
\<close>

theorem C3_absent_unit_counterexample: "normalize_unit 3 None \<noteq> (3, ''count'')"
  by (simp add: normalize_unit_def stueck_neq_count)

text \<open>
  C3, amended: for every quantity, normalize with an absent unit label returns the
  quantity unchanged and the program's default unit (the word written \<open>st\<close>, U+00FC,
  \<open>ck\<close>).
\<close>

theorem C3_absent_unit: "normalize_unit q None = (q, stueck)"
  by (simp add: normalize_unit_def)

text \<open>
  Lower-casing never turns a code unit into white space or back, so trimming before or
  after lower-casing gives the same label.
\<close>

lemma isWhiteSpace_lowerChar: "isWhiteSpace (lowerChar c) = isWhiteSpace c"
proof -
  let ?n = "of_char c :: nat"
  show ?thesis
  proof (cases "(65 \<le> ?n \<and> ?n \<le> 90) \<or> (192 \<le> ?n \<and> ?n \<le> 222 \<and> ?n \<noteq> 215)")
    case False
    then show ?thesis by (auto simp: lowerChar_def Let_def)
  next
    case True
    then have l: "lowerChar c = char_of (?n + 32)"
      by (simp add: lowerChar_def Let_def)
    have "(of_char (char_of (?n + 32)) :: nat) = ?n + 32"
      using True by (auto simp: of_char_of)
    then show ?thesis
      using True by (auto simp: l isWhiteSpace_def)
  qed
qed

lemma dropWhile_toLowerCase:
  "dropWhile isWhiteSpace (toLowerCase s) = toLowerCase (dropWhile isWhiteSpace s)"
  by (induction s) (simp_all add: toLowerCase_def isWhiteSpace_lowerChar)

lemma rev_toLowerCase: "rev (toLowerCase s) = toLowerCase (rev s)"
  by (simp add: toLowerCase_def rev_map)

lemma trim_toLowerCase: "trim (toLowerCase s) = toLowerCase (trim s)"
  by (simp add: trim_def dropWhile_toLowerCase rev_toLowerCase)

lemma toLowerCase_Gramm: "toLowerCase ''Gramm'' = ''gramm''"
  by code_simp

lemma trim_gramm: "trim ''gramm'' = ''gramm''"
  by code_simp

lemma toLowerCase_L: "toLowerCase ''L'' = ''l''"
  by code_simp

lemma trim_l: "trim ''l'' = ''l''"
  by code_simp

lemma toLowerCase_ml: "toLowerCase ''ml'' = ''ml''"
  by code_simp

lemma trim_ml: "trim ''ml'' = ''ml''"
  by code_simp

text \<open>
  C4 as stated: a label that trims and lower-cases to \<open>kilogram\<close> is turned into
  grams. The program's alias lists hold the German spellings, so \<open>kilogram\<close> (and
  likewise \<open>gram\<close>) is passed through with its quantity unchanged.
\<close>

theorem C4_alias_sets_counterexample:
  "trim (toLowerCase ''kilogram'') \<in> {''kg'', ''kilo'', ''kilogram''} \<and>
   normalize_unit 2 (Some ''kilogram'') \<noteq> (1000 * 2, ''g'')"
  by (simp add: normalize_unit_def toLowerCase_kilogram trim_kilogram)

text \<open>
  C4, amended: for every quantity \<open>q\<close> and every label that, lower-cased and trimmed,
  is one of \<open>kg\<close>, \<open>kilo\<close>, \<open>kilogramm\<close>, normalize returns \<open>1000 q\<close> grams;
  for \<open>g\<close>, \<open>gramm\<close>, \<open>gr\<close> it returns \<open>q\<close> grams; for \<open>l\<close>, \<open>liter\<close>
  it returns \<open>1000 q\<close> millilitres; for \<open>ml\<close>, \<open>milliliter\<close> it returns \<open>q\<close>
  millilitres.
\<close>

theorem C4_alias_sets:
  "(trim (toLowerCase lbl) \<in> {''kg'', ''kilo'', ''kilogramm''} \<longrightarrow>
      normalize_unit q (Some lbl) = (1000 * q, ''g'')) \<and>
   (trim (toLowerCase lbl) \<in> {''g'', ''gramm'', ''gr''} \<longrightarrow>
      normalize_unit q (Some lbl) = (q, ''g'')) \<and>
   (trim (toLowerCase lbl) \<in> {''l'', ''liter''} \<longrightarrow>
      normalize_unit q (Some lbl) = (1000 * q, ''ml'')) \<and>
   (trim (toLowerCase lbl) \<in> {''ml'', ''milliliter''} \<longrightarrow>
      normalize_unit q (Some lbl) = (q, ''ml''))"
proof (cases "lbl = []")
  case True
  then show ?thesis by (simp add: trim_Nil toLowerCase_Nil)
next
  case False
  then show ?thesis by (auto simp: normalize_unit_def Let_def)
qed

theorem C4_alias_sets_witness:
  "(trim (toLowerCase '' KG '') \<in> {''kg'', ''kilo'', ''kilogramm''} \<and>
      normalize_unit 2 (Some '' KG '') = (2000, ''g'')) \<and>
   (trim (toLowerCase ''Gramm'') \<in> {''g'', ''gramm'', ''gr''} \<and>
      normalize_unit 250 (Some ''Gramm'') = (250, ''g'')) \<and>
   (trim (toLowerCase ''L'') \<in> {''l'', ''liter''} \<and>
      normalize_unit 1 (Some ''L'') = (1000, ''ml'')) \<and>
   (trim (toLowerCase ''ml'') \<in> {''ml'', ''milliliter''} \<and>
      normalize_unit 200 (Some ''ml'') = (200, ''ml''))"
  using C4_alias_sets [of "'' KG ''" 2] C4_alias_sets [of "''Gramm''" 250]
    C4_alias_sets [of "''L''" 1] C4_alias_sets [of "''ml''" 200]
  by (simp add: toLowerCase_KG trim_kg toLowerCase_Gramm trim_gramm toLowerCase_L trim_l
      toLowerCase_ml trim_ml)

section \<open>Aggregation: results\<close>

lemma toLowerCase_apple: "toLowerCase ''apple'' = ''apple''"
  by code_simp

lemma toLowerCase_milk: "toLowerCase ''milk'' = ''milk''"
  by code_simp

lemma toLowerCase_egg: "toLowerCase ''egg'' = ''egg''"
  by code_simp

lemmas agg_defs = getInventory_def foldTransactions_def applyTransaction_def currentOf_def
  updateCurrent_def initial_def orDefault_def toItem_def displayName_def Add_def Remove_def

lemma foldTransactions_snoc:
  "foldTransactions (txs @ [tx]) = applyTransaction (foldTransactions txs) tx"
  by (simp add: foldTransactions_def)

lemma map_of_applyTransaction:
  "map_of (applyTransaction m tx) k =
     (if k = toLowerCase (tx_name tx) then Some (updateCurrent (currentOf m tx) tx)
      else map_of m k)"
  by (simp add: applyTransaction_def update_conv')

lemma distinct_foldTransactions: "distinct (map fst (foldTransactions txs))"
proof (induction txs rule: rev_induct)
  case Nil
  show ?case by (simp add: foldTransactions_def)
next
  case (snoc tx txs)
  then show ?case
    by (simp add: foldTransactions_snoc applyTransaction_def distinct_update)
qed

text \<open>
  C5: when the fold comes to an ADD for a key that it has not seen yet, or whose quantity
  is 0 at that point, the key's state afterwards has the unit of that transaction and its
  quantity; and aggregating Add 5 apple count, Remove 5 apple count, Add 2 apple g gives
  one item: apple, 2, g.
\<close>

theorem C5_add_on_empty_balance:
  assumes "tx_type tx = ADD"
    and "map_of (foldTransactions txs) (toLowerCase (tx_name tx)) = None \<or>
         (\<exists>c. map_of (foldTransactions txs) (toLowerCase (tx_name tx)) = Some c \<and>
              cur_quantity c = 0)"
  shows "map_of (foldTransactions (txs @ [tx])) (toLowerCase (tx_name tx)) =
           Some \<lparr>cur_quantity = tx_quantity tx, cur_unit = tx_unit tx\<rparr> \<and>
         getInventory [Add 5 ''apple'' ''count'', Remove 5 ''apple'' ''count'',
             Add 2 ''apple'' ''g''] =
           [\<lparr>item_name = ''apple'', item_quantity = 2, item_unit = Some ''g''\<rparr>]"
proof
  have "cur_quantity (currentOf (foldTransactions txs) tx) = 0"
    using assms(2) by (auto simp: currentOf_def initial_def)
  then show "map_of (foldTransactions (txs @ [tx])) (toLowerCase (tx_name tx)) =
           Some \<lparr>cur_quantity = tx_quantity tx, cur_unit = tx_unit tx\<rparr>"
    using assms(1) by (simp add: foldTransactions_snoc map_of_applyTransaction updateCurrent_def)
next
  show "getInventory [Add 5 ''apple'' ''count'', Remove 5 ''apple'' ''count'',
             Add 2 ''apple'' ''g''] =
           [\<lparr>item_name = ''apple'', item_quantity = 2, item_unit = Some ''g''\<rparr>]"
    by (simp add: agg_defs toLowerCase_apple)
qed

theorem C5_add_on_empty_balance_witness:
  "tx_type (Add 2 ''apple'' ''g'') = ADD \<and>
   map_of (foldTransactions [Add 5 ''apple'' ''count'', Remove 5 ''apple'' ''count''])
     (toLowerCase (tx_name (Add 2 ''apple'' ''g''))) =
     Some \<lparr>cur_quantity = 0, cur_unit = Some ''count''\<rparr> \<and>
   map_of (foldTransactions ([Add 5 ''apple'' ''count'', Remove 5 ''apple'' ''count''] @
          [Add 2 ''apple'' ''g''])) (toLowerCase (tx_name (Add 2 ''apple'' ''g''))) =
     Some \<lparr>cur_quantity = 2, cur_unit = Some ''g''\<rparr> \<and>
   map_of (foldTransactions []) (toLowerCase (tx_name (Add 5 ''apple'' ''count''))) = None \<and>
   map_of (foldTransactions ([] @ [Add 5 ''apple'' ''count'']))
          (toLowerCase (tx_name (Add 5 ''apple'' ''count''))) =
     Some \<lparr>cur_quantity = 5, cur_unit = Some ''count''\<rparr>"
proof -
  have t: "tx_type (Add 2 ''apple'' ''g'') = ADD" "tx_type (Add 5 ''apple'' ''count'') = ADD"
    by (simp_all add: Add_def)
  have h1: "map_of (foldTransactions [Add 5 ''apple'' ''count'', Remove 5 ''apple'' ''count''])
     (toLowerCase (tx_name (Add 2 ''apple'' ''g''))) =
     Some \<lparr>cur_quantity = 0, cur_unit = Some ''count''\<rparr>"
    by (simp add: agg_defs toLowerCase_apple)
  then have h1': "\<exists>c. map_of (foldTransactions [Add 5 ''apple'' ''count'',
       Remove 5 ''apple'' ''count'']) (toLowerCase (tx_name (Add 2 ''apple'' ''g''))) = Some c \<and>
       cur_quantity c = 0"
    by simp
  have h2: "map_of (foldTransactions []) (toLowerCase (tx_name (Add 5 ''apple'' ''count''))) = None"
    by (simp add: foldTransactions_def)
  show ?thesis
    using t h1 h2
      C5_add_on_empty_balance [OF t(1) disjI2 [OF h1']]
      C5_add_on_empty_balance [OF t(2) disjI1 [OF h2]]
    by (simp add: Add_def)
qed

text \<open>
  C2: when the fold comes to a REMOVE whose unit differs from the unit of the key's
  current state (the stored state, or the state created for a key on first sight), the
  key's state afterwards is that current state; for a key that was already stored the
  whole fold state is unchanged. Aggregating Add 1000 milk ml, Remove 1 milk count gives
  one item: milk, 1000, ml.
\<close>

theorem C2_remove_unit_mismatch:
  assumes "tx_type tx = REMOVE"
    and "cur_unit (currentOf (foldTransactions txs) tx) \<noteq> tx_unit tx"
  shows "map_of (foldTransactions (txs @ [tx])) (toLowerCase (tx_name tx)) =
           Some (currentOf (foldTransactions txs) tx) \<and>
         (\<forall>c. map_of (foldTransactions txs) (toLowerCase (tx_name tx)) = Some c \<longrightarrow>
            foldTransactions (txs @ [tx]) = foldTransactions txs) \<and>
         getInventory [Add 1000 ''milk'' ''ml'', Remove 1 ''milk'' ''count''] =
           [\<lparr>item_name = ''milk'', item_quantity = 1000, item_unit = Some ''ml''\<rparr>]"
proof -
  have u: "updateCurrent (currentOf (foldTransactions txs) tx) tx =
      currentOf (foldTransactions txs) tx"
    using assms by (simp add: updateCurrent_def)
  have a: "map_of (foldTransactions (txs @ [tx])) (toLowerCase (tx_name tx)) =
           Some (currentOf (foldTransactions txs) tx)"
    by (simp add: foldTransactions_snoc map_of_applyTransaction u)
  have b: "foldTransactions (txs @ [tx]) = foldTransactions txs"
    if "map_of (foldTransactions txs) (toLowerCase (tx_name tx)) = Some c" for c
  proof -
    have "currentOf (foldTransactions txs) tx = c"
      using that by (simp add: currentOf_def)
    then show ?thesis
      using that u by (simp add: foldTransactions_snoc applyTransaction_def update_triv)
  qed
  have c: "getInventory [Add 1000 ''milk'' ''ml'', Remove 1 ''milk'' ''count''] =
           [\<lparr>item_name = ''milk'', item_quantity = 1000, item_unit = Some ''ml''\<rparr>]"
    by (simp add: agg_defs toLowerCase_milk)
  from a b c show ?thesis by blast
qed

theorem C2_remove_unit_mismatch_witness:
  "tx_type (Remove 1 ''milk'' ''count'') = REMOVE \<and>
   cur_unit (currentOf (foldTransactions [Add 1000 ''milk'' ''ml'']) (Remove 1 ''milk'' ''count''))
     \<noteq> tx_unit (Remove 1 ''milk'' ''count'') \<and>
   map_of (foldTransactions [Add 1000 ''milk'' ''ml''])
     (toLowerCase (tx_name (Remove 1 ''milk'' ''count''))) =
     Some \<lparr>cur_quantity = 1000, cur_unit = Some ''ml''\<rparr> \<and>
   map_of (foldTransactions ([Add 1000 ''milk'' ''ml''] @ [Remove 1 ''milk'' ''count'']))
     (toLowerCase (tx_name (Remove 1 ''milk'' ''count''))) =
     Some \<lparr>cur_quantity = 1000, cur_unit = Some ''ml''\<rparr> \<and>
   foldTransactions ([Add 1000 ''milk'' ''ml''] @ [Remove 1 ''milk'' ''count'']) =
     foldTransactions [Add 1000 ''milk'' ''ml'']"
proof -
  have t: "tx_type (Remove 1 ''milk'' ''count'') = REMOVE"
    by (simp add: Remove_def)
  have c: "currentOf (foldTransactions [Add 1000 ''milk'' ''ml'']) (Remove 1 ''milk'' ''count'')
      = \<lparr>cur_quantity = 1000, cur_unit = Some ''ml''\<rparr>"
    by (simp add: agg_defs toLowerCase_milk)
  have h: "cur_unit (currentOf (foldTransactions [Add 1000 ''milk'' ''ml''])
      (Remove 1 ''milk'' ''count'')) \<noteq> tx_unit (Remove 1 ''milk'' ''count'')"
    by (simp add: c) (simp add: Remove_def)
  have m: "map_of (foldTransactions [Add 1000 ''milk'' ''ml''])
     (toLowerCase (tx_name (Remove 1 ''milk'' ''count''))) =
     Some \<lparr>cur_quantity = 1000, cur_unit = Some ''ml''\<rparr>"
    by (simp add: agg_defs toLowerCase_milk)
  show ?thesis
    using t h m c C2_remove_unit_mismatch [OF t h] by simp
qed

lemma keys_foldTransactions:
  "fst ` set (foldTransactions txs) = (\<lambda>t. toLowerCase (tx_name t)) ` set txs"
proof (induction txs rule: rev_induct)
  case Nil
  show ?case by (simp add: foldTransactions_def)
next
  case (snoc tx txs)
  then show ?case
    by (simp add: foldTransactions_snoc applyTransaction_def dom_update)
qed

lemma displayName_key:
  assumes "k \<in> (\<lambda>t. toLowerCase (tx_name t)) ` set txs"
  shows "toLowerCase (displayName txs k) = k"
proof (cases "find (\<lambda>t. toLowerCase (tx_name t) = k) (rev txs)")
  case None
  then show ?thesis using assms by (auto simp: find_None_iff)
next
  case (Some t)
  then have "toLowerCase (tx_name t) = k" by (auto simp: find_Some_iff)
  then show ?thesis using Some by (simp add: displayName_def)
qed

lemma keys_getInventory:
  "map (\<lambda>it. toLowerCase (item_name it)) (getInventory txs) =
   map fst (filter (\<lambda>kv. 0 < cur_quantity (snd kv)) (foldTransactions txs))"
proof -
  have "toLowerCase (item_name (toItem txs kv)) = fst kv"
    if "kv \<in> set (foldTransactions txs)" for kv
  proof -
    have "fst kv \<in> (\<lambda>t. toLowerCase (tx_name t)) ` set txs"
      using that keys_foldTransactions [of txs] by force
    then show ?thesis by (simp add: toItem_def displayName_key)
  qed
  then show ?thesis by (simp add: getInventory_def)
qed

lemma count_distinct:
  "distinct ys \<Longrightarrow> length (filter (\<lambda>y. y = k) ys) = (if k \<in> set ys then 1 else 0)"
  by (induction ys) auto

lemma positive_key_iff:
  "k \<in> set (map fst (filter (\<lambda>kv. 0 < cur_quantity (snd kv)) (foldTransactions txs))) \<longleftrightarrow>
   (\<exists>c. map_of (foldTransactions txs) k = Some c \<and> 0 < cur_quantity c)"
  using distinct_foldTransactions [of txs] by (auto simp: image_iff)

lemma length_itemsOfKey:
  "length (itemsOfKey k (getInventory txs)) =
     (case map_of (foldTransactions txs) k of
        None \<Rightarrow> 0
      | Some c \<Rightarrow> if 0 < cur_quantity c then 1 else 0)"
proof -
  let ?m = "foldTransactions txs"
  let ?pos = "filter (\<lambda>kv. 0 < cur_quantity (snd kv)) ?m"
  have d: "distinct (map fst ?pos)"
    using distinct_foldTransactions [of txs] by (rule distinct_map_filter)
  have "length (itemsOfKey k (getInventory txs)) =
      length (filter (\<lambda>y. y = k) (map (\<lambda>it. toLowerCase (item_name it)) (getInventory txs)))"
    by (simp add: itemsOfKey_def filter_map comp_def)
  also have "\<dots> = (if k \<in> set (map fst ?pos) then 1 else 0)"
    by (simp only: keys_getInventory count_distinct [OF d])
  also have "\<dots> = (case map_of ?m k of None \<Rightarrow> 0
      | Some c \<Rightarrow> if 0 < cur_quantity c then 1 else 0)"
    by (simp only: positive_key_iff) (auto split: option.splits)
  finally show ?thesis .
qed

text \<open>
  C6: for every transaction sequence and every key, the snapshot holds exactly one item
  whose name folds to the key when the key's final quantity is greater than 0, and none
  when the key was never seen or its final quantity is 0 or negative; every item carries
  the final quantity and unit of its key. Aggregating Add 2 egg count, Remove 2 egg count
  gives the empty snapshot; after Add 2, Remove 5 the stored balance is -3 (not clamped)
  and the snapshot is empty as well.
\<close>

theorem C6_snapshot_items:
  "length (itemsOfKey k (getInventory txs)) =
     (case map_of (foldTransactions txs) k of
        None \<Rightarrow> 0
      | Some c \<Rightarrow> if 0 < cur_quantity c then 1 else 0) \<and>
   (\<forall>it \<in> set (getInventory txs).
      map_of (foldTransactions txs) (toLowerCase (item_name it)) =
        Some \<lparr>cur_quantity = item_quantity it, cur_unit = item_unit it\<rparr>) \<and>
   getInventory [Add 2 ''egg'' ''count'', Remove 2 ''egg'' ''count''] = [] \<and>
   map_of (foldTransactions [Add 2 ''egg'' ''count'', Remove 5 ''egg'' ''count'']) ''egg'' =
     Some \<lparr>cur_quantity = - 3, cur_unit = Some ''count''\<rparr> \<and>
   getInventory [Add 2 ''egg'' ''count'', Remove 5 ''egg'' ''count''] = []"
proof -
  let ?m = "foldTransactions txs"
  have a: "length (itemsOfKey k (getInventory txs)) =
     (case map_of ?m k of None \<Rightarrow> 0 | Some c \<Rightarrow> if 0 < cur_quantity c then 1 else 0)"
    by (rule length_itemsOfKey)
  have b: "map_of ?m (toLowerCase (item_name it)) =
        Some \<lparr>cur_quantity = item_quantity it, cur_unit = item_unit it\<rparr>"
    if "it \<in> set (getInventory txs)" for it
  proof -
    from that obtain kv where kv: "kv \<in> set ?m" "it = toItem txs kv"
      by (auto simp: getInventory_def)
    have "fst kv \<in> (\<lambda>t. toLowerCase (tx_name t)) ` set txs"
      using kv(1) keys_foldTransactions [of txs] by force
    then have "toLowerCase (item_name it) = fst kv"
      by (simp add: kv(2) toItem_def displayName_key)
    moreover have "map_of ?m (fst kv) = Some (snd kv)"
      using kv(1) distinct_foldTransactions [of txs] by simp
    ultimately show ?thesis by (simp add: kv(2) toItem_def)
  qed
  have c: "getInventory [Add 2 ''egg'' ''count'', Remove 2 ''egg'' ''count''] = []"
    by (simp add: agg_defs toLowerCase_egg)
  have e: "map_of (foldTransactions [Add 2 ''egg'' ''count'', Remove 5 ''egg'' ''count'']) ''egg'' =
     Some \<lparr>cur_quantity = - 3, cur_unit = Some ''count''\<rparr>"
    by (simp add: agg_defs toLowerCase_egg)
  have f: "getInventory [Add 2 ''egg'' ''count'', Remove 5 ''egg'' ''count''] = []"
    by (simp add: agg_defs toLowerCase_egg)
  from a b c e f show ?thesis by blast
qed

theorem C6_snapshot_items_witness:
  "getInventory [Add 2 ''egg'' ''count'', Add 1000 ''milk'' ''ml'', Remove 2 ''egg'' ''count''] =
     [\<lparr>item_name = ''milk'', item_quantity = 1000, item_unit = Some ''ml''\<rparr>] \<and>
   length (itemsOfKey ''milk'' (getInventory
     [Add 2 ''egg'' ''count'', Add 1000 ''milk'' ''ml'', Remove 2 ''egg'' ''count''])) = 1 \<and>
   length (itemsOfKey ''egg'' (getInventory
     [Add 2 ''egg'' ''count'', Add 1000 ''milk'' ''ml'', Remove 2 ''egg'' ''count''])) = 0 \<and>
   length (itemsOfKey ''apple'' (getInventory
     [Add 2 ''egg'' ''count'', Add 1000 ''milk'' ''ml'', Remove 2 ''egg'' ''count''])) = 0 \<and>
   map_of (foldTransactions
     [Add 2 ''egg'' ''count'', Add 1000 ''milk'' ''ml'', Remove 2 ''egg'' ''count''])
     (toLowerCase ''milk'') = Some \<lparr>cur_quantity = 1000, cur_unit = Some ''ml''\<rparr>"
proof -
  let ?txs = "[Add 2 ''egg'' ''count'', Add 1000 ''milk'' ''ml'', Remove 2 ''egg'' ''count'']"
  have m: "foldTransactions ?txs =
      [(''egg'', \<lparr>cur_quantity = 0, cur_unit = Some ''count''\<rparr>),
       (''milk'', \<lparr>cur_quantity = 1000, cur_unit = Some ''ml''\<rparr>)]"
    by (simp add: agg_defs toLowerCase_egg toLowerCase_milk)
  have g: "getInventory ?txs =
      [\<lparr>item_name = ''milk'', item_quantity = 1000, item_unit = Some ''ml''\<rparr>]"
    by (simp add: getInventory_def m) (simp add: agg_defs toLowerCase_egg toLowerCase_milk)
  show ?thesis
    using C6_snapshot_items [of "''milk''" ?txs] C6_snapshot_items [of "''egg''" ?txs]
      C6_snapshot_items [of "''apple''" ?txs]
    by (simp add: m g toLowerCase_milk)
qed

lemma toLowerCase_joghurt: "toLowerCase ''joghurt'' = ''joghurt''"
  by code_simp

lemma updateCurrent_same_unit:
  assumes "cur_unit c = Some u" and "tx_unit tx = Some u"
  shows "updateCurrent c tx =
     \<lparr>cur_quantity = cur_quantity c + signedQuantity tx, cur_unit = Some u\<rparr>"
  using assms by (cases "tx_type tx") (auto simp: updateCurrent_def signedQuantity_def)

lemma fold_same_unit:
  assumes "u \<noteq> []"
    and "\<forall>t \<in> set txs. toLowerCase (tx_name t) = k \<longrightarrow> tx_unit t = Some u"
  shows "map_of (foldTransactions txs) k =
     (if ofKey k txs = [] then None
      else Some \<lparr>cur_quantity = sum_list (map signedQuantity (ofKey k txs)),
                cur_unit = Some u\<rparr>)"
  using assms(2)
proof (induction txs rule: rev_induct)
  case Nil
  show ?case by (simp add: foldTransactions_def ofKey_def)
next
  case (snoc tx txs)
  then have ih: "map_of (foldTransactions txs) k =
     (if ofKey k txs = [] then None
      else Some \<lparr>cur_quantity = sum_list (map signedQuantity (ofKey k txs)),
                cur_unit = Some u\<rparr>)"
    by simp
  show ?case
  proof (cases "toLowerCase (tx_name tx) = k")
    case False
    then show ?thesis
      using ih by (simp add: foldTransactions_snoc map_of_applyTransaction ofKey_def)
  next
    case True
    then have tu: "tx_unit tx = Some u" using snoc.prems by simp
    have cu: "cur_unit (currentOf (foldTransactions txs) tx) = Some u"
      using ih True tu assms(1)
      by (auto simp: currentOf_def initial_def orDefault_def split: if_splits)
    have cq: "cur_quantity (currentOf (foldTransactions txs) tx) =
        sum_list (map signedQuantity (ofKey k txs))"
      using ih True by (auto simp: currentOf_def initial_def split: if_splits)
    show ?thesis
      using True cq
      by (simp add: foldTransactions_snoc map_of_applyTransaction
          updateCurrent_same_unit [OF cu tu] ofKey_def)
  qed
qed

lemma ofKey_Nil_iff: "ofKey k txs = [] \<longleftrightarrow> (\<forall>t \<in> set txs. toLowerCase (tx_name t) \<noteq> k)"
  by (simp add: ofKey_def filter_empty_conv)

text \<open>
  C10 as stated: a key whose first transaction is a REMOVE of quantity \<open>q > 0\<close> and
  unit \<open>u\<close> gets the state \<open>(- q, u)\<close>. With the empty string as unit (what a
  whitespace-only label is normalised to) the state is created with the default unit, the
  units differ, and the REMOVE changes nothing: the balance is 0.
\<close>

theorem C10_first_remove_counterexample:
  "0 < tx_quantity (Remove 1 ''joghurt'' '''') \<and>
   map_of (foldTransactions [Remove 1 ''joghurt'' '''']) ''joghurt'' =
     Some \<lparr>cur_quantity = 0, cur_unit = Some stueck\<rparr> \<and>
   map_of (foldTransactions [Remove 1 ''joghurt'' '''']) ''joghurt'' \<noteq>
     Some \<lparr>cur_quantity = - 1, cur_unit = Some ''''\<rparr>"
  by (simp add: agg_defs toLowerCase_joghurt stueck_def)

text \<open>
  C10, amended: for every key whose first transaction is a REMOVE of quantity \<open>q > 0\<close>
  with a non-empty unit \<open>u\<close>, the state of the key after that transaction is
  \<open>(- q, u)\<close>. While no other transaction of the key follows, the snapshot has no item
  of the key. When the later transactions of the key all carry the unit \<open>u\<close>, they are
  netted against that balance: the state is their additions minus their removals minus
  \<open>q\<close>, with unit \<open>u\<close>.
\<close>

theorem C10_first_remove:
  assumes "0 < tx_quantity r" and "tx_type r = REMOVE" and "tx_unit r = Some u" and "u \<noteq> []"
    and "toLowerCase (tx_name r) = k" and "ofKey k pre = []"
    and "\<forall>t \<in> set rest. toLowerCase (tx_name t) = k \<longrightarrow> tx_unit t = Some u"
  shows "map_of (foldTransactions (pre @ [r])) k =
           Some \<lparr>cur_quantity = - tx_quantity r, cur_unit = Some u\<rparr> \<and>
         (ofKey k rest = [] \<longrightarrow> itemsOfKey k (getInventory (pre @ [r] @ rest)) = []) \<and>
         map_of (foldTransactions (pre @ [r] @ rest)) k =
           Some \<lparr>cur_quantity = sum_list (map signedQuantity (ofKey k rest)) - tx_quantity r,
                 cur_unit = Some u\<rparr>"
proof -
  have p: "\<forall>t \<in> set pre. toLowerCase (tx_name t) \<noteq> k"
    using assms(6) by (simp add: ofKey_Nil_iff)
  have sr: "signedQuantity r = - tx_quantity r"
    using assms(2) by (simp add: signedQuantity_def)
  have k1: "ofKey k (pre @ [r]) = [r]"
    using assms(5,6) by (simp add: ofKey_def)
  have k2: "ofKey k (pre @ [r] @ rest) = r # ofKey k rest"
    using assms(5,6) by (simp add: ofKey_def)
  have u1: "\<forall>t \<in> set (pre @ [r]). toLowerCase (tx_name t) = k \<longrightarrow> tx_unit t = Some u"
    using p assms(3) by auto
  have u2: "\<forall>t \<in> set (pre @ [r] @ rest).
      toLowerCase (tx_name t) = k \<longrightarrow> tx_unit t = Some u"
    using p assms(3,7) by auto
  have a: "map_of (foldTransactions (pre @ [r])) k =
           Some \<lparr>cur_quantity = - tx_quantity r, cur_unit = Some u\<rparr>"
    using fold_same_unit [OF assms(4) u1] k1 sr by simp
  have c: "map_of (foldTransactions (pre @ [r] @ rest)) k =
           Some \<lparr>cur_quantity = sum_list (map signedQuantity (ofKey k rest)) - tx_quantity r,
                 cur_unit = Some u\<rparr>"
    using fold_same_unit [OF assms(4) u2] k2 sr by simp
  have b: "itemsOfKey k (getInventory (pre @ [r] @ rest)) = []" if "ofKey k rest = []"
  proof -
    have "length (itemsOfKey k (getInventory (pre @ [r] @ rest))) = 0"
      using c that assms(1) by (simp add: length_itemsOfKey)
    then show ?thesis by simp
  qed
  from a b c show ?thesis by blast
qed

theorem C10_first_remove_witness:
  "0 < tx_quantity (Remove 5 ''milk'' ''ml'') \<and>
   tx_type (Remove 5 ''milk'' ''ml'') = REMOVE \<and>
   tx_unit (Remove 5 ''milk'' ''ml'') = Some ''ml'' \<and> ''ml'' \<noteq> [] \<and>
   toLowerCase (tx_name (Remove 5 ''milk'' ''ml'')) = ''milk'' \<and>
   ofKey ''milk'' [Add 2 ''egg'' ''count''] = [] \<and>
   ofKey ''milk'' [Add 1 ''egg'' ''count''] = [] \<and>
   ofKey ''milk'' [Add 1 ''egg'' ''count'', Add 8 ''milk'' ''ml''] = [Add 8 ''milk'' ''ml''] \<and>
   tx_unit (Add 8 ''milk'' ''ml'') = Some ''ml'' \<and>
   map_of (foldTransactions ([Add 2 ''egg'' ''count''] @ [Remove 5 ''milk'' ''ml''])) ''milk'' =
     Some \<lparr>cur_quantity = - 5, cur_unit = Some ''ml''\<rparr> \<and>
   itemsOfKey ''milk'' (getInventory ([Add 2 ''egg'' ''count''] @ [Remove 5 ''milk'' ''ml''] @
     [Add 1 ''egg'' ''count''])) = [] \<and>
   map_of (foldTransactions ([Add 2 ''egg'' ''count''] @ [Remove 5 ''milk'' ''ml''] @
     [Add 1 ''egg'' ''count'', Add 8 ''milk'' ''ml''])) ''milk'' =
     Some \<lparr>cur_quantity = 3, cur_unit = Some ''ml''\<rparr>"
proof -
  have h: "0 < tx_quantity (Remove 5 ''milk'' ''ml'')"
    "tx_type (Remove 5 ''milk'' ''ml'') = REMOVE"
    "tx_unit (Remove 5 ''milk'' ''ml'') = Some ''ml''" "''ml'' \<noteq> []"
    "toLowerCase (tx_name (Remove 5 ''milk'' ''ml'')) = ''milk''"
    "ofKey ''milk'' [Add 2 ''egg'' ''count''] = []"
    by (simp_all add: Add_def Remove_def ofKey_def toLowerCase_milk toLowerCase_egg)
  have r1: "\<forall>t \<in> set [Add 1 ''egg'' ''count'']. toLowerCase (tx_name t) = ''milk'' \<longrightarrow>
      tx_unit t = Some ''ml''"
    by (simp add: Add_def toLowerCase_egg)
  have r2: "\<forall>t \<in> set [Add 1 ''egg'' ''count'', Add 8 ''milk'' ''ml''].
      toLowerCase (tx_name t) = ''milk'' \<longrightarrow> tx_unit t = Some ''ml''"
    by (simp add: Add_def toLowerCase_egg)
  have e: "ofKey ''milk'' [Add 1 ''egg'' ''count''] = []"
    "ofKey ''milk'' [Add 1 ''egg'' ''count'', Add 8 ''milk'' ''ml''] = [Add 8 ''milk'' ''ml'']"
    "tx_unit (Add 8 ''milk'' ''ml'') = Some ''ml''"
    "signedQuantity (Add 8 ''milk'' ''ml'') = 8"
    "tx_quantity (Remove 5 ''milk'' ''ml'') = 5"
    by (simp_all add: Add_def Remove_def ofKey_def toLowerCase_milk toLowerCase_egg
        signedQuantity_def)
  show ?thesis
    using h C10_first_remove [OF h r1] C10_first_remove [OF h r2]
    by (simp add: e)
qed

lemma add_unit_mismatch:
  assumes "tx_type tx = ADD"
    and "map_of (foldTransactions txs) (toLowerCase (tx_name tx)) = Some c"
    and "cur_quantity c \<noteq> 0" and "cur_unit c \<noteq> tx_unit tx"
  shows "map_of (foldTransactions (txs @ [tx])) (toLowerCase (tx_name tx)) =
     Some \<lparr>cur_quantity = cur_quantity c + tx_quantity tx, cur_unit = cur_unit c\<rparr>"
  using assms
  by (simp add: foldTransactions_snoc map_of_applyTransaction updateCurrent_def currentOf_def)

text \<open>
  C1 on the program: the log Add 1000 milk ml, Add 2 milk of the default unit. The second
  ADD meets a balance of 1000 with another unit, and the fold adds the raw numbers: the
  snapshot holds milk with 1002 ml. No conflict is reported and no balance per unit is
  kept.
\<close>

theorem C1_add_unit_mismatch:
  "getInventory [Add 1000 ''milk'' ''ml'', Add 2 ''milk'' stueck] =
     [\<lparr>item_name = ''milk'', item_quantity = 1002, item_unit = Some ''ml''\<rparr>]"
  by (simp add: agg_defs toLowerCase_milk stueck_def)

lemma toLowerCase_blank: "toLowerCase '' '' = '' ''"
  by code_simp

lemma trim_blank: "trim '' '' = ''''"
  by code_simp

lemma sum_ofKey_mset:
  "sum_list (map signedQuantity (ofKey k txs)) =
     sum_mset (image_mset signedQuantity
       (filter_mset (\<lambda>t. toLowerCase (tx_name t) = k) (mset txs)))"
  by (simp add: ofKey_def sum_mset_sum_list [symmetric] mset_filter [symmetric]
      del: mset_filter)

lemma reorder_same_nonempty_unit:
  assumes "u \<noteq> []"
    and "\<forall>t \<in> set txs. toLowerCase (tx_name t) = k \<longrightarrow> tx_unit t = Some u"
    and "mset txs' = mset txs"
  shows "map_of (foldTransactions txs') k = map_of (foldTransactions txs) k"
proof -
  have s: "set txs' = set txs" using assms(3) by (rule mset_eq_setD)
  then have a': "\<forall>t \<in> set txs'. toLowerCase (tx_name t) = k \<longrightarrow> tx_unit t = Some u"
    using assms(2) by simp
  show ?thesis
    by (simp only: fold_same_unit [OF assms(1) assms(2)] fold_same_unit [OF assms(1) a']
        sum_ofKey_mset ofKey_Nil_iff s assms(3))
qed

text \<open>
  C7 on the program: two logs that are reorderings of each other, every transaction for
  the key milk and with the same unit, the empty string (what a label of one space is
  normalised to). REMOVE first gives the final quantity 3, ADD first gives 2.
\<close>

theorem C7_reorder_empty_unit:
  "normalize_unit 1 (Some '' '') = (1, '''') \<and>
   normalize_unit 3 (Some '' '') = (3, '''') \<and>
   getInventory [Remove 1 ''milk'' '''', Add 3 ''milk'' ''''] =
     [\<lparr>item_name = ''milk'', item_quantity = 3, item_unit = Some ''''\<rparr>] \<and>
   getInventory [Add 3 ''milk'' '''', Remove 1 ''milk'' ''''] =
     [\<lparr>item_name = ''milk'', item_quantity = 2, item_unit = Some ''''\<rparr>]"
  by (simp add: agg_defs toLowerCase_milk stueck_def normalize_unit_def toLowerCase_blank
      trim_blank)

text \<open>
  The client-side copy on the same logs: both orders give the quantity 2. For every log,
  the balance it computes for a key is the sum of the key's additions minus its removals,
  so it is the same for every reordering.
\<close>

lemma calculateCurrent_quantity:
  "cur_quantity (calculateCurrent c tx) = cur_quantity c + signedQuantity tx"
  by (cases "tx_type tx") (simp_all add: calculateCurrent_def signedQuantity_def)

lemma calculateFold_snoc:
  "calculateFold (txs @ [tx]) = calculateStep (calculateFold txs) tx"
  by (simp add: calculateFold_def)

lemma map_of_calculateStep:
  "map_of (calculateStep m tx) k =
     (if k = toLowerCase (tx_name tx) then Some (calculateCurrent (currentOf m tx) tx)
      else map_of m k)"
  by (simp add: calculateStep_def update_conv')

lemma calculate_quantity:
  "map_option cur_quantity (map_of (calculateFold txs) k) =
     (if ofKey k txs = [] then None
      else Some (sum_list (map signedQuantity (ofKey k txs))))"
proof (induction txs rule: rev_induct)
  case Nil
  show ?case by (simp add: ofKey_def calculateFold_def)
next
  case (snoc tx txs)
  show ?case
  proof (cases "toLowerCase (tx_name tx) = k")
    case False
    then show ?thesis
      using snoc by (simp add: calculateFold_snoc map_of_calculateStep ofKey_def)
  next
    case True
    have "cur_quantity (currentOf (calculateFold txs) tx) =
        sum_list (map signedQuantity (ofKey k txs))"
      using snoc True by (auto simp: currentOf_def initial_def split: if_splits option.splits)
    then show ?thesis
      using True
      by (simp add: calculateFold_snoc map_of_calculateStep ofKey_def
          calculateCurrent_quantity)
  qed
qed

lemma calculate_reorder:
  assumes "mset txs' = mset txs"
  shows "map_option cur_quantity (map_of (calculateFold txs') k) =
         map_option cur_quantity (map_of (calculateFold txs) k)"
proof -
  have s: "set txs' = set txs" using assms by (rule mset_eq_setD)
  show ?thesis
    by (simp only: calculate_quantity sum_ofKey_mset ofKey_Nil_iff s assms)
qed

lemma calculateInventory_orders:
  "calculateInventory [Remove 1 ''milk'' '''', Add 3 ''milk'' ''''] =
     [\<lparr>item_name = ''milk'', item_quantity = 2, item_unit = Some stueck\<rparr>] \<and>
   calculateInventory [Add 3 ''milk'' '''', Remove 1 ''milk'' ''''] =
     [\<lparr>item_name = ''milk'', item_quantity = 2, item_unit = Some stueck\<rparr>]"
  by (simp add: calculateInventory_def calculateFold_def calculateStep_def calculateCurrent_def
      currentOf_def initial_def orDefault_def toItem_def displayName_def Add_def Remove_def
      toLowerCase_milk stueck_def)

section \<open>Ledger: results\<close>

text \<open>
  C8 as stated: a read error is reported to the caller, and an error during an append
  leaves the stored log unchanged and never partially written. With one transaction
  stored and the next file read throwing, the read returns the empty array as a normal
  result, and an append in that world reads the empty array too and writes the log back
  with the new transaction alone. With the read working and the write throwing after the
  file was opened, the append fails and the stored log is gone: the file no longer parses.
\<close>

theorem C8_persistence_failure_counterexample:
  "readFileSync \<lparr>dbFile = Some (Json [Add 2 ''egg'' ''count'']), readThrows = True,
      nextWrite = Completes\<rparr> = Inl IOError \<and>
   getTransactions \<lparr>dbFile = Some (Json [Add 2 ''egg'' ''count'']), readThrows = True,
      nextWrite = Completes\<rparr> = Inr [] \<and>
   addTransaction \<lparr>dbFile = Some (Json [Add 2 ''egg'' ''count'']), readThrows = True,
      nextWrite = Completes\<rparr> ''t2'' 7 ADD ''milk'' 1 (Some ''L'') =
     (\<lparr>dbFile = Some (Json [\<lparr>tx_id = ''t2'', tx_timestamp = 7, tx_type = ADD,
          tx_name = ''milk'', tx_quantity = 1000, tx_unit = Some ''ml''\<rparr>]),
       readThrows = True, nextWrite = Completes\<rparr>,
      Inr \<lparr>tx_id = ''t2'', tx_timestamp = 7, tx_type = ADD, tx_name = ''milk'',
        tx_quantity = 1000, tx_unit = Some ''ml''\<rparr>) \<and>
   addTransaction \<lparr>dbFile = Some (Json [Add 2 ''egg'' ''count'']), readThrows = False,
      nextWrite = ThrowsAfterOpen\<rparr> ''t2'' 7 ADD ''milk'' 1 (Some ''L'') =
     (\<lparr>dbFile = Some Unparsable, readThrows = False, nextWrite = ThrowsAfterOpen\<rparr>,
      Inl IOError)"
  by (simp add: readFileSync_def getTransactions_def existsSync_def addTransaction_def
      writeFileSync_def JSON_parse_def normalize_unit_def toLowerCase_L trim_l Let_def)

lemma getTransactions_never_fails: "getTransactions w \<noteq> Inl e"
  by (simp add: getTransactions_def split: sum.splits)

text \<open>
  C8, amended: a failure during a ledger read is not reported. The file-backed read never
  fails: when the file read throws or the content does not parse, it returns the empty
  array. The Postgres-backed read returns the empty array when the query fails, and fails
  only when the table is missing and creating it fails as well. An append whose write
  throws, at the open or after it, fails with that error.
\<close>

theorem C8_read_swallowed_write_raised:
  "getTransactions w \<noteq> Inl e \<and>
   (readFileSync w = Inl e \<longrightarrow> getTransactions w = Inr []) \<and>
   (readFileSync w = Inr c \<and> JSON_parse c = Inl e \<longrightarrow> getTransactions w = Inr []) \<and>
   getTransactionsPG QueryError b = Inr [] \<and>
   getTransactionsPG UndefinedTable False = Inr [] \<and>
   getTransactionsPG UndefinedTable True = Inl IOError \<and>
   (nextWrite w \<noteq> Completes \<longrightarrow>
      snd (addTransaction w newId now ty nm q u) = Inl IOError)"
proof -
  have a: "getTransactions w \<noteq> Inl e"
    by (rule getTransactions_never_fails)
  have b: "readFileSync w = Inl e \<longrightarrow> getTransactions w = Inr []"
    by (simp add: getTransactions_def)
  have c: "readFileSync w = Inr c \<and> JSON_parse c = Inl e \<longrightarrow> getTransactions w = Inr []"
    by (simp add: getTransactions_def)
  have d: "getTransactionsPG QueryError b = Inr []"
    "getTransactionsPG UndefinedTable False = Inr []"
    "getTransactionsPG UndefinedTable True = Inl IOError"
    by (simp_all add: getTransactionsPG_def)
  have f: "snd (addTransaction w newId now ty nm q u) = Inl IOError"
    if "nextWrite w \<noteq> Completes"
  proof (cases "getTransactions w")
    case (Inl x)
    then show ?thesis by (simp add: getTransactions_never_fails)
  next
    case (Inr ts)
    then show ?thesis
      using that
      by (cases "nextWrite w") (simp_all add: addTransaction_def writeFileSync_def Let_def)
  qed
  from a b c d f show ?thesis by blast
qed

theorem C8_read_swallowed_write_raised_witness:
  "readFileSync \<lparr>dbFile = Some (Json [Add 2 ''egg'' ''count'']), readThrows = True,
      nextWrite = Completes\<rparr> = Inl IOError \<and>
   getTransactions \<lparr>dbFile = Some (Json [Add 2 ''egg'' ''count'']), readThrows = True,
      nextWrite = Completes\<rparr> = Inr [] \<and>
   readFileSync \<lparr>dbFile = Some Unparsable, readThrows = False, nextWrite = Completes\<rparr> =
      Inr Unparsable \<and>
   JSON_parse Unparsable = Inl SyntaxError \<and>
   getTransactions \<lparr>dbFile = Some Unparsable, readThrows = False, nextWrite = Completes\<rparr> =
      Inr [] \<and>
   nextWrite \<lparr>dbFile = Some (Json [Add 2 ''egg'' ''count'']), readThrows = False,
      nextWrite = ThrowsAtOpen\<rparr> \<noteq> Completes \<and>
   snd (addTransaction \<lparr>dbFile = Some (Json [Add 2 ''egg'' ''count'']), readThrows = False,
      nextWrite = ThrowsAtOpen\<rparr> ''t2'' 7 ADD ''milk'' 1 (Some ''L'')) = Inl IOError \<and>
   nextWrite \<lparr>dbFile = Some (Json [Add 2 ''egg'' ''count'']), readThrows = False,
      nextWrite = ThrowsAfterOpen\<rparr> \<noteq> Completes \<and>
   snd (addTransaction \<lparr>dbFile = Some (Json [Add 2 ''egg'' ''count'']), readThrows = False,
      nextWrite = ThrowsAfterOpen\<rparr> ''t2'' 7 ADD ''milk'' 1 (Some ''L'')) = Inl IOError"
proof -
  let ?w1 = "\<lparr>dbFile = Some (Json [Add 2 ''egg'' ''count'']), readThrows = True,
      nextWrite = Completes\<rparr>"
  let ?w2 = "\<lparr>dbFile = Some Unparsable, readThrows = False, nextWrite = Completes\<rparr>"
  let ?w3 = "\<lparr>dbFile = Some (Json [Add 2 ''egg'' ''count'']), readThrows = False,
      nextWrite = ThrowsAtOpen\<rparr>"
  let ?w4 = "\<lparr>dbFile = Some (Json [Add 2 ''egg'' ''count'']), readThrows = False,
      nextWrite = ThrowsAfterOpen\<rparr>"
  have h1: "readFileSync ?w1 = Inl IOError"
    by (simp add: readFileSync_def)
  have h2: "readFileSync ?w2 = Inr Unparsable" "JSON_parse Unparsable = Inl SyntaxError"
    by (simp_all add: readFileSync_def JSON_parse_def)
  have h3: "nextWrite ?w3 \<noteq> Completes" "nextWrite ?w4 \<noteq> Completes"
    by simp_all
  show ?thesis
    using h1 h2 h3
      C8_read_swallowed_write_raised [of ?w1 IOError]
      C8_read_swallowed_write_raised [of ?w2 SyntaxError Unparsable]
      C8_read_swallowed_write_raised [of ?w3 _ _ _ "''t2''" 7 ADD "''milk''" 1 "Some ''L''"]
      C8_read_swallowed_write_raised [of ?w4 _ _ _ "''t2''" 7 ADD "''milk''" 1 "Some ''L''"]
    by simp
qed

text \<open>
  What a failed write leaves behind: the file as it was when the open failed, a file
  that does not parse otherwise. The next read of such a file returns the empty array.
\<close>

lemma failed_write_leaves:
  "(nextWrite w = ThrowsAtOpen \<longrightarrow> fst (addTransaction w newId now ty nm q u) = w) \<and>
   (nextWrite w = ThrowsAfterOpen \<longrightarrow>
      fst (addTransaction w newId now ty nm q u) = w\<lparr>dbFile := Some Unparsable\<rparr>)"
proof (cases "getTransactions w")
  case (Inl x)
  then show ?thesis by (simp add: getTransactions_never_fails)
next
  case (Inr ts)
  then show ?thesis
    by (simp add: addTransaction_def writeFileSync_def Let_def)
qed

text \<open>
  C9 on the program: two appends to an empty blob store, resumed in the order read, read,
  write, write. Both calls end, and the store holds one transaction: the first append is
  overwritten by the second. Resumed one after the other, the same calls store both.
\<close>

theorem C9_lost_update:
  "run [0, 1, 0, 1]
     (None, [Reading (Add 2 ''egg'' ''count''), Reading (Add 1000 ''milk'' ''ml'')]) =
     (Some [Add 1000 ''milk'' ''ml''], [Finished, Finished]) \<and>
   length (getTransactionsBlob (fst (run [0, 1, 0, 1]
     (None, [Reading (Add 2 ''egg'' ''count''), Reading (Add 1000 ''milk'' ''ml'')])))) = 1 \<and>
   run [0, 0, 1, 1]
     (None, [Reading (Add 2 ''egg'' ''count''), Reading (Add 1000 ''milk'' ''ml'')]) =
     (Some [Add 2 ''egg'' ''count'', Add 1000 ''milk'' ''ml''], [Finished, Finished])"
  by (simp add: getTransactionsBlob_def)


end
